theory Spec2Isabelle
  imports Main "HOL-Library.Word"
begin

section \<open>The NFC-ID migration of the \<open>extra_fields_spool\<close> setting\<close>

text \<open>
  The migration script \<^verbatim>\<open>a1b2c3d4e5f6_add_nfc_id_extra_field.py\<close> has two entry points,
  \<^verbatim>\<open>upgrade()\<close> and \<^verbatim>\<open>downgrade()\<close>. Both read the row of table \<^verbatim>\<open>setting\<close> whose key is
  \<^verbatim>\<open>extra_fields_spool\<close>, decode its value with \<^verbatim>\<open>json.loads\<close>, change the decoded list,
  and write it back with \<^verbatim>\<open>json.dumps\<close> and the current time.
\<close>

subsection \<open>Python values\<close>

text \<open>
  What \<^verbatim>\<open>json.loads\<close> returns: \<^verbatim>\<open>None\<close>, a \<^verbatim>\<open>bool\<close>, an \<^verbatim>\<open>int\<close> (unbounded), a \<^verbatim>\<open>float\<close>
  (an IEEE double, kept as its 64 bits: the migration never looks inside one), a \<^verbatim>\<open>str\<close>,
  a \<^verbatim>\<open>list\<close>, or a \<^verbatim>\<open>dict\<close> with \<^verbatim>\<open>str\<close> keys in insertion order.
\<close>

datatype json =
    JNull
  | JBool bool
  | JInt int
  | JFloat "64 word"
  | JString string
  | JArray "json list"
  | JObject "(string \<times> json) list"

text \<open>The exceptions the two functions can raise.\<close>

datatype error = JSONDecodeError | TypeError | AttributeError | IntegrityError

text \<open>
  The content of the \<^verbatim>\<open>value\<close> column is a text. The migration only ever hands it to
  \<^verbatim>\<open>json.loads\<close> and only ever stores what \<^verbatim>\<open>json.dumps\<close> returns, so a text is
  represented by what \<^verbatim>\<open>json.loads\<close> makes of it: the value it decodes to, or nothing
  (the text is not JSON, and \<^verbatim>\<open>json.loads\<close> raises \<^verbatim>\<open>JSONDecodeError\<close>). Two
  texts that decode to the same value (they differ in white space or escapes) are thus
  one text here; \<^verbatim>\<open>json.loads(json.dumps(v)) == v\<close> of the json module is built in.
\<close>

datatype json_text = Encoded json | Undecodable string

fun json_loads :: "json_text \<Rightarrow> error + json" where
  "json_loads (Encoded v) = Inr v"
| "json_loads (Undecodable s) = Inl JSONDecodeError"

definition json_dumps :: "json \<Rightarrow> json_text" where
  "json_dumps v = Encoded v"

text \<open>
  \<^verbatim>\<open>for field in existing_fields\<close>: a list yields its elements, a dict its keys, a str its
  characters (each a str of length one); nothing else is iterable.
\<close>

fun py_iter :: "json \<Rightarrow> error + json list" where
  "py_iter (JArray xs) = Inr xs"
| "py_iter (JObject kvs) = Inr (map (\<lambda>kv. JString (fst kv)) kvs)"
| "py_iter (JString s) = Inr (map (\<lambda>c. JString [c]) s)"
| "py_iter JNull = Inl TypeError"
| "py_iter (JBool b) = Inl TypeError"
| "py_iter (JInt i) = Inl TypeError"
| "py_iter (JFloat f) = Inl TypeError"

text \<open>
  \<^verbatim>\<open>field.get(k)\<close>: only a dict has the method; a key that is missing gives \<^verbatim>\<open>None\<close>.
\<close>

fun py_get :: "json \<Rightarrow> string \<Rightarrow> error + json" where
  "py_get (JObject kvs) k = Inr (case map_of kvs k of None \<Rightarrow> JNull | Some v \<Rightarrow> v)"
| "py_get JNull k = Inl AttributeError"
| "py_get (JBool b) k = Inl AttributeError"
| "py_get (JInt i) k = Inl AttributeError"
| "py_get (JFloat f) k = Inl AttributeError"
| "py_get (JString s) k = Inl AttributeError"
| "py_get (JArray xs) k = Inl AttributeError"

text \<open>
  \<^verbatim>\<open>any(field.get("key") == "nfc_id" for field in existing_fields)\<close>, on the items the
  loop visits: \<^verbatim>\<open>any\<close> stops at the first item that matches, and an item without a
  \<^verbatim>\<open>get\<close> method raises when it is reached.
\<close>

fun any_nfc_id :: "json list \<Rightarrow> error + bool" where
  "any_nfc_id [] = Inr False"
| "any_nfc_id (field # rest) =
     (case py_get field ''key'' of
        Inl e \<Rightarrow> Inl e
      | Inr k \<Rightarrow> if k = JString ''nfc_id'' then Inr True else any_nfc_id rest)"

text \<open>
  \<^verbatim>\<open>[field for field in existing_fields if field.get("key") != "nfc_id"]\<close>, on the items
  the loop visits: every item is tested, in order.
\<close>

fun without_nfc_id :: "json list \<Rightarrow> error + json list" where
  "without_nfc_id [] = Inr []"
| "without_nfc_id (field # rest) =
     (case py_get field ''key'' of
        Inl e \<Rightarrow> Inl e
      | Inr k \<Rightarrow>
          (case without_nfc_id rest of
             Inl e \<Rightarrow> Inl e
           | Inr kept \<Rightarrow> Inr (if k \<noteq> JString ''nfc_id'' then field # kept else kept)))"

text \<open>\<^verbatim>\<open>existing_fields.insert(0, x)\<close>: only a list has the method.\<close>

fun py_insert0 :: "json \<Rightarrow> json \<Rightarrow> error + json" where
  "py_insert0 (JArray xs) x = Inr (JArray (x # xs))"
| "py_insert0 JNull x = Inl AttributeError"
| "py_insert0 (JBool b) x = Inl AttributeError"
| "py_insert0 (JInt i) x = Inl AttributeError"
| "py_insert0 (JFloat f) x = Inl AttributeError"
| "py_insert0 (JString s) x = Inl AttributeError"
| "py_insert0 (JObject kvs) x = Inl AttributeError"

text \<open>The dict literal \<^verbatim>\<open>nfc_field\<close>, the same in both branches of \<^verbatim>\<open>upgrade\<close>.\<close>

definition nfc_field :: json where
  "nfc_field = JObject
     [(''key'', JString ''nfc_id''),
      (''entity_type'', JString ''spool''),
      (''name'', JString ''NFC Tag ID''),
      (''order'', JInt 0),
      (''unit'', JNull),
      (''field_type'', JString ''text''),
      (''default_value'', JNull),
      (''choices'', JNull),
      (''multi_choice'', JNull)]"

subsection \<open>The database connection\<close>

text \<open>
  Table \<^verbatim>\<open>setting\<close> has the columns \<^verbatim>\<open>key\<close>, \<^verbatim>\<open>value\<close> and \<^verbatim>\<open>last_updated\<close>, and
  \<^verbatim>\<open>key\<close> is unique: the table is a map from keys to the other two columns. The
  connection also records every statement the migration executes on it, in order, so
  that "no write is performed" can be said. \<^verbatim>\<open>datetime.utcnow()\<close> reads a clock the
  migration does not control: the time is an argument of \<^verbatim>\<open>upgrade\<close> and \<^verbatim>\<open>downgrade\<close>.
\<close>

type_synonym datetime = nat

record setting_row =
  setting_value :: json_text
  last_updated :: datetime

datatype statement =
    Select string
  | Update string json_text datetime
  | Insert string json_text datetime

record connection =
  setting :: "string \<rightharpoonup> setting_row"
  executed :: "statement list"

datatype outcome = Returned | Raised error

text \<open>\<^verbatim>\<open>SELECT value FROM setting WHERE key = k\<close>, then \<^verbatim>\<open>fetchone()\<close>.\<close>

definition execute_select :: "string \<Rightarrow> connection \<Rightarrow> json_text option \<times> connection" where
  "execute_select k c =
     (map_option setting_value (setting c k), c\<lparr>executed := executed c @ [Select k]\<rparr>)"

text \<open>
  \<^verbatim>\<open>UPDATE setting SET value = :value, last_updated = :updated WHERE key = k\<close>: changes
  the row of \<open>k\<close> when there is one, and no row otherwise.
\<close>

definition execute_update :: "string \<Rightarrow> json_text \<Rightarrow> datetime \<Rightarrow> connection \<Rightarrow> connection" where
  "execute_update k v t c =
     c\<lparr>setting :=
          (case setting c k of
             None \<Rightarrow> setting c
           | Some r \<Rightarrow> (setting c)(k \<mapsto> r\<lparr>setting_value := v, last_updated := t\<rparr>)),
       executed := executed c @ [Update k v t]\<rparr>"

text \<open>
  \<^verbatim>\<open>INSERT INTO setting (key, value, last_updated) VALUES (k, v, t)\<close>: a second row with
  the key \<open>k\<close> violates the uniqueness of the key.
\<close>

definition execute_insert :: "string \<Rightarrow> json_text \<Rightarrow> datetime \<Rightarrow> connection \<Rightarrow> outcome \<times> connection" where
  "execute_insert k v t c =
     (case setting c k of
        None \<Rightarrow>
          (Returned,
           c\<lparr>setting := (setting c)(k \<mapsto> \<lparr>setting_value = v, last_updated = t\<rparr>),
             executed := executed c @ [Insert k v t]\<rparr>)
      | Some r \<Rightarrow> (Raised IntegrityError, c\<lparr>executed := executed c @ [Insert k v t]\<rparr>))"

subsection \<open>upgrade and downgrade\<close>

text \<open>
  \<^verbatim>\<open>upgrade()\<close>, lines 21 to 73. \<^verbatim>\<open>if result:\<close> is true exactly when a row was fetched.
  Every exception is raised after the SELECT and before any write.
\<close>

definition upgrade :: "datetime \<Rightarrow> connection \<Rightarrow> outcome \<times> connection" where
  "upgrade now c =
     (case execute_select ''extra_fields_spool'' c of
        (Some result, c1) \<Rightarrow>
          (case json_loads result of
             Inl e \<Rightarrow> (Raised e, c1)
           | Inr existing_fields \<Rightarrow>
               (case py_iter existing_fields of
                  Inl e \<Rightarrow> (Raised e, c1)
                | Inr items \<Rightarrow>
                    (case any_nfc_id items of
                       Inl e \<Rightarrow> (Raised e, c1)
                     | Inr True \<Rightarrow> (Returned, c1)
                     | Inr False \<Rightarrow>
                         (case py_insert0 existing_fields nfc_field of
                            Inl e \<Rightarrow> (Raised e, c1)
                          | Inr merged \<Rightarrow>
                              (Returned,
                               execute_update ''extra_fields_spool'' (json_dumps merged) now c1)))))
      | (None, c1) \<Rightarrow>
          execute_insert ''extra_fields_spool'' (json_dumps (JArray [nfc_field])) now c1)"

text \<open>\<^verbatim>\<open>downgrade()\<close>, lines 76 to 95.\<close>

definition downgrade :: "datetime \<Rightarrow> connection \<Rightarrow> outcome \<times> connection" where
  "downgrade now c =
     (case execute_select ''extra_fields_spool'' c of
        (Some result, c1) \<Rightarrow>
          (case json_loads result of
             Inl e \<Rightarrow> (Raised e, c1)
           | Inr existing_fields \<Rightarrow>
               (case py_iter existing_fields of
                  Inl e \<Rightarrow> (Raised e, c1)
                | Inr items \<Rightarrow>
                    (case without_nfc_id items of
                       Inl e \<Rightarrow> (Raised e, c1)
                     | Inr kept \<Rightarrow>
                         (Returned,
                          execute_update ''extra_fields_spool'' (json_dumps (JArray kept)) now c1))))
      | (None, c1) \<Rightarrow> (Returned, c1))"

text \<open>
  Two migrations in sequence: the second runs on the connection the first leaves, and
  does not run when the first raised.
\<close>

definition and_then ::
  "(connection \<Rightarrow> outcome \<times> connection) \<Rightarrow> (connection \<Rightarrow> outcome \<times> connection) \<Rightarrow>
   connection \<Rightarrow> outcome \<times> connection" where
  "and_then f g c =
     (case f c of
        (Returned, c1) \<Rightarrow> g c1
      | (Raised e, c1) \<Rightarrow> (Raised e, c1))"

subsection \<open>What the claims speak about\<close>

text \<open>The decoded value stored under \<^verbatim>\<open>extra_fields_spool\<close>, if the row exists.\<close>

definition stored_fields :: "connection \<Rightarrow> (error + json) option" where
  "stored_fields c =
     map_option (\<lambda>r. json_loads (setting_value r)) (setting c ''extra_fields_spool'')"

text \<open>The statements that write: everything but a SELECT.\<close>

fun is_write :: "statement \<Rightarrow> bool" where
  "is_write (Select k) = False"
| "is_write (Update k v t) = True"
| "is_write (Insert k v t) = True"

definition writes :: "connection \<Rightarrow> statement list" where
  "writes c = filter is_write (executed c)"

text \<open>A field descriptor is a JSON object.\<close>

fun is_object :: "json \<Rightarrow> bool" where
  "is_object (JObject kvs) = True"
| "is_object JNull = False"
| "is_object (JBool b) = False"
| "is_object (JInt i) = False"
| "is_object (JFloat f) = False"
| "is_object (JString s) = False"
| "is_object (JArray xs) = False"

text \<open>
  The \<^verbatim>\<open>key\<close> attribute of a field descriptor, as \<^verbatim>\<open>field.get("key")\<close> reads it
  (\<^verbatim>\<open>None\<close> when the descriptor has none).
\<close>

fun key_of :: "json \<Rightarrow> json" where
  "key_of (JObject kvs) = (case map_of kvs ''key'' of None \<Rightarrow> JNull | Some v \<Rightarrow> v)"
| "key_of JNull = JNull"
| "key_of (JBool b) = JNull"
| "key_of (JInt i) = JNull"
| "key_of (JFloat f) = JNull"
| "key_of (JString s) = JNull"
| "key_of (JArray xs) = JNull"

text \<open>A descriptor matches when it is an object whose \<^verbatim>\<open>key\<close> is the string \<^verbatim>\<open>nfc_id\<close>.\<close>

definition is_nfc_id :: "json \<Rightarrow> bool" where
  "is_nfc_id field = (py_get field ''key'' = Inr (JString ''nfc_id''))"

subsection \<open>Concrete databases\<close>

text \<open>
  A second field descriptor, and two databases: one without the row, and one whose only
  row is the one of \<^verbatim>\<open>extra_fields_spool\<close>, last updated at time 0. No statement has
  been executed on them yet.
\<close>

definition material :: json where
  "material = JObject [(''key'', JString ''material''), (''name'', JString ''Material'')]"

definition fresh_connection :: connection where
  "fresh_connection = \<lparr>setting = Map.empty, executed = []\<rparr>"

definition connection_with :: "json_text \<Rightarrow> connection" where
  "connection_with v =
     \<lparr>setting = [''extra_fields_spool'' \<mapsto> \<lparr>setting_value = v, last_updated = 0\<rparr>],
      executed = []\<rparr>"

section \<open>Properties\<close>

subsection \<open>What the Python helpers compute\<close>

lemma is_nfc_id_JObject:
  "is_nfc_id (JObject kvs) = (map_of kvs ''key'' = Some (JString ''nfc_id''))"
  by (simp add: is_nfc_id_def split: option.splits)

lemma is_nfc_id_key_of: "is_object field \<Longrightarrow> is_nfc_id field = (key_of field = JString ''nfc_id'')"
  by (cases field) (simp_all add: is_nfc_id_def)

lemma py_get_key_object: "is_object field \<Longrightarrow> py_get field ''key'' = Inr (key_of field)"
  by (cases field) simp_all

lemma py_get_key_not_object: "\<not> is_object field \<Longrightarrow> py_get field ''key'' = Inl AttributeError"
  by (cases field) simp_all

lemma is_nfc_id_nfc_field: "is_nfc_id nfc_field"
  by (simp add: is_nfc_id_def nfc_field_def)

lemma is_object_nfc_field: "is_object nfc_field"
  by (simp add: nfc_field_def)

lemma key_of_nfc_field: "key_of nfc_field = JString ''nfc_id''"
  by (simp add: nfc_field_def)

lemma any_nfc_id_eq:
  "any_nfc_id xs =
     (if list_ex is_nfc_id (takeWhile is_object xs) then Inr True
      else if list_all is_object xs then Inr False
      else Inl AttributeError)"
proof (induction xs)
  case Nil
  show ?case by simp
next
  case (Cons field rest)
  show ?case
  proof (cases "is_object field")
    case True
    then show ?thesis
      using Cons.IH by (simp add: py_get_key_object is_nfc_id_key_of)
  next
    case False
    then show ?thesis
      by (simp add: py_get_key_not_object)
  qed
qed

lemma without_nfc_id_eq:
  "without_nfc_id xs =
     (if list_all is_object xs then Inr (filter (\<lambda>field. \<not> is_nfc_id field) xs)
      else Inl AttributeError)"
proof (induction xs)
  case Nil
  show ?case by simp
next
  case (Cons field rest)
  show ?case
  proof (cases "is_object field")
    case True
    then show ?thesis
      using Cons.IH by (simp add: py_get_key_object is_nfc_id_key_of)
  next
    case False
    then show ?thesis
      by (simp add: py_get_key_not_object)
  qed
qed


subsection \<open>upgrade and downgrade, case by case\<close>

lemma upgrade_absent:
  assumes "setting c ''extra_fields_spool'' = None"
  shows "upgrade now c =
     (Returned,
      c\<lparr>setting := (setting c)(''extra_fields_spool'' \<mapsto>
            \<lparr>setting_value = Encoded (JArray [nfc_field]), last_updated = now\<rparr>),
        executed := executed c @
          [Select ''extra_fields_spool'',
           Insert ''extra_fields_spool'' (Encoded (JArray [nfc_field])) now]\<rparr>)"
  using assms by (simp add: upgrade_def execute_select_def execute_insert_def json_dumps_def)

lemma upgrade_undecodable:
  assumes "setting c ''extra_fields_spool'' = Some r" and "json_loads (setting_value r) = Inl e"
  shows "upgrade now c = (Raised e, c\<lparr>executed := executed c @ [Select ''extra_fields_spool'']\<rparr>)"
  using assms by (simp add: upgrade_def execute_select_def)

lemma upgrade_not_iterable:
  assumes "setting c ''extra_fields_spool'' = Some r" and "json_loads (setting_value r) = Inr v"
    and "py_iter v = Inl e"
  shows "upgrade now c = (Raised e, c\<lparr>executed := executed c @ [Select ''extra_fields_spool'']\<rparr>)"
  using assms by (simp add: upgrade_def execute_select_def)

lemma any_nfc_id_strings:
  "any_nfc_id (map (\<lambda>x. JString (g x)) xs) = (if xs = [] then Inr False else Inl AttributeError)"
  by (cases xs) simp_all

lemma upgrade_string:
  assumes "setting c ''extra_fields_spool'' = Some r"
    and "json_loads (setting_value r) = Inr (JString s)"
  shows "upgrade now c =
     (Raised AttributeError, c\<lparr>executed := executed c @ [Select ''extra_fields_spool'']\<rparr>)"
  using assms by (simp add: upgrade_def execute_select_def any_nfc_id_strings)

lemma upgrade_object:
  assumes "setting c ''extra_fields_spool'' = Some r"
    and "json_loads (setting_value r) = Inr (JObject kvs)"
  shows "upgrade now c =
     (Raised AttributeError, c\<lparr>executed := executed c @ [Select ''extra_fields_spool'']\<rparr>)"
  using assms by (simp add: upgrade_def execute_select_def any_nfc_id_strings)

lemma upgrade_array:
  assumes "setting c ''extra_fields_spool'' = Some r"
    and "json_loads (setting_value r) = Inr (JArray xs)"
  shows "upgrade now c =
     (if list_ex is_nfc_id (takeWhile is_object xs) then
        (Returned, c\<lparr>executed := executed c @ [Select ''extra_fields_spool'']\<rparr>)
      else if list_all is_object xs then
        (Returned,
         c\<lparr>setting := (setting c)(''extra_fields_spool'' \<mapsto>
               r\<lparr>setting_value := Encoded (JArray (nfc_field # xs)), last_updated := now\<rparr>),
           executed := executed c @
             [Select ''extra_fields_spool'',
              Update ''extra_fields_spool'' (Encoded (JArray (nfc_field # xs))) now]\<rparr>)
      else (Raised AttributeError, c\<lparr>executed := executed c @ [Select ''extra_fields_spool'']\<rparr>))"
  using assms
  by (simp add: upgrade_def execute_select_def execute_update_def json_dumps_def any_nfc_id_eq)

lemma downgrade_absent:
  assumes "setting c ''extra_fields_spool'' = None"
  shows "downgrade now c = (Returned, c\<lparr>executed := executed c @ [Select ''extra_fields_spool'']\<rparr>)"
  using assms by (simp add: downgrade_def execute_select_def)

lemma downgrade_undecodable:
  assumes "setting c ''extra_fields_spool'' = Some r" and "json_loads (setting_value r) = Inl e"
  shows "downgrade now c = (Raised e, c\<lparr>executed := executed c @ [Select ''extra_fields_spool'']\<rparr>)"
  using assms by (simp add: downgrade_def execute_select_def)

lemma downgrade_not_iterable:
  assumes "setting c ''extra_fields_spool'' = Some r" and "json_loads (setting_value r) = Inr v"
    and "py_iter v = Inl e"
  shows "downgrade now c = (Raised e, c\<lparr>executed := executed c @ [Select ''extra_fields_spool'']\<rparr>)"
  using assms by (simp add: downgrade_def execute_select_def)

lemma downgrade_items:
  assumes "setting c ''extra_fields_spool'' = Some r"
    and "json_loads (setting_value r) = Inr v" and "py_iter v = Inr items"
  shows "downgrade now c =
     (if list_all is_object items then
        (Returned,
         c\<lparr>setting := (setting c)(''extra_fields_spool'' \<mapsto>
               r\<lparr>setting_value := Encoded (JArray (filter (\<lambda>field. \<not> is_nfc_id field) items)),
                 last_updated := now\<rparr>),
           executed := executed c @
             [Select ''extra_fields_spool'',
              Update ''extra_fields_spool''
                (Encoded (JArray (filter (\<lambda>field. \<not> is_nfc_id field) items))) now]\<rparr>)
      else (Raised AttributeError, c\<lparr>executed := executed c @ [Select ''extra_fields_spool'']\<rparr>))"
  using assms
  by (simp add: downgrade_def execute_select_def execute_update_def json_dumps_def without_nfc_id_eq)

lemma downgrade_string:
  assumes "setting c ''extra_fields_spool'' = Some r"
    and "json_loads (setting_value r) = Inr (JString (ch # s))"
  shows "downgrade now c =
     (Raised AttributeError, c\<lparr>executed := executed c @ [Select ''extra_fields_spool'']\<rparr>)"
  using assms by (simp add: downgrade_def execute_select_def)

lemma downgrade_object:
  assumes "setting c ''extra_fields_spool'' = Some r"
    and "json_loads (setting_value r) = Inr (JObject (kv # kvs))"
  shows "downgrade now c =
     (Raised AttributeError, c\<lparr>executed := executed c @ [Select ''extra_fields_spool'']\<rparr>)"
  using assms by (simp add: downgrade_def execute_select_def)

lemma downgrade_array:
  assumes "setting c ''extra_fields_spool'' = Some r"
    and "json_loads (setting_value r) = Inr (JArray xs)"
  shows "downgrade now c =
     (if list_all is_object xs then
        (Returned,
         c\<lparr>setting := (setting c)(''extra_fields_spool'' \<mapsto>
               r\<lparr>setting_value := Encoded (JArray (filter (\<lambda>field. \<not> is_nfc_id field) xs)),
                 last_updated := now\<rparr>),
           executed := executed c @
             [Select ''extra_fields_spool'',
              Update ''extra_fields_spool''
                (Encoded (JArray (filter (\<lambda>field. \<not> is_nfc_id field) xs))) now]\<rparr>)
      else (Raised AttributeError, c\<lparr>executed := executed c @ [Select ''extra_fields_spool'']\<rparr>))"
  using assms downgrade_items [of c r "JArray xs" xs now] by simp

lemma stored_fields_array:
  "stored_fields c = Some (Inr v) \<longleftrightarrow>
     (\<exists>r. setting c ''extra_fields_spool'' = Some r \<and> json_loads (setting_value r) = Inr v)"
  by (auto simp add: stored_fields_def)


lemma upgrade_cases:
  obtains (absent) "setting c ''extra_fields_spool'' = None"
  | (raised) e where "upgrade now c = (Raised e, c\<lparr>executed := executed c @ [Select ''extra_fields_spool'']\<rparr>)"
  | (array) r xs where "setting c ''extra_fields_spool'' = Some r"
      "json_loads (setting_value r) = Inr (JArray xs)"
proof (cases "setting c ''extra_fields_spool''")
  case None
  then show ?thesis by (rule absent)
next
  case (Some r)
  show ?thesis
  proof (cases "json_loads (setting_value r)")
    case (Inl e)
    with Some show ?thesis by (auto intro: raised dest: upgrade_undecodable)
  next
    case (Inr v)
    show ?thesis
    proof (cases v)
      case (JArray xs)
      with Some Inr show ?thesis by (auto intro: array)
    next
      case (JString s)
      with Some Inr show ?thesis by (auto intro: raised dest: upgrade_string)
    next
      case (JObject kvs)
      with Some Inr show ?thesis by (auto intro: raised dest: upgrade_object)
    qed (use Some Inr in \<open>auto intro: raised dest: upgrade_not_iterable\<close>)
  qed
qed

lemma upgrade_returned_found:
  assumes "upgrade now c = (Returned, c1)"
  shows "\<exists>r xs. setting c1 ''extra_fields_spool'' = Some r \<and>
           json_loads (setting_value r) = Inr (JArray xs) \<and>
           list_ex is_nfc_id (takeWhile is_object xs)"
proof (cases rule: upgrade_cases [where c = c and now = now])
  case absent
  then show ?thesis
    using assms by (auto simp add: upgrade_absent is_nfc_id_nfc_field is_object_nfc_field)
next
  case (raised e)
  then show ?thesis using assms by simp
next
  case (array r xs)
  then show ?thesis
    using assms
    by (auto simp add: upgrade_array is_nfc_id_nfc_field is_object_nfc_field split: if_splits)
qed

lemma upgrade_found:
  assumes "setting c ''extra_fields_spool'' = Some r"
    and "json_loads (setting_value r) = Inr (JArray xs)"
    and "list_ex is_nfc_id (takeWhile is_object xs)"
  shows "upgrade now c = (Returned, c\<lparr>executed := executed c @ [Select ''extra_fields_spool'']\<rparr>)"
  using assms by (simp add: upgrade_array)

lemma and_then_Returned: "f c = (Returned, c1) \<Longrightarrow> and_then f g c = g c1"
  by (simp add: and_then_def)

lemma filter_not_nfc_id_none:
  "\<not> list_ex is_nfc_id xs \<Longrightarrow> filter (\<lambda>field. \<not> is_nfc_id field) xs = xs"
  by (induction xs) simp_all

lemma filter_not_nfc_id_key_of:
  "list_all is_object xs \<Longrightarrow>
   filter (\<lambda>field. \<not> is_nfc_id field) xs = filter (\<lambda>field. key_of field \<noteq> JString ''nfc_id'') xs"
  by (induction xs) (simp_all add: is_nfc_id_key_of)

lemma list_ex_nfc_id_key_of:
  "list_all is_object xs \<Longrightarrow>
   list_ex is_nfc_id xs = list_ex (\<lambda>field. key_of field = JString ''nfc_id'') xs"
  by (induction xs) (simp_all add: is_nfc_id_key_of)

lemma takeWhile_objects: "list_all is_object xs \<Longrightarrow> takeWhile is_object xs = xs"
  by (induction xs) simp_all

lemma list_all_object_filter: "list_all is_object xs \<Longrightarrow> list_all is_object (filter P xs)"
  by (induction xs) simp_all

lemma downgrade_cases:
  obtains (absent) "setting c ''extra_fields_spool'' = None"
  | (raised) e where "downgrade now c = (Raised e, c\<lparr>executed := executed c @ [Select ''extra_fields_spool'']\<rparr>)"
  | (items) r v xs where "setting c ''extra_fields_spool'' = Some r"
      "json_loads (setting_value r) = Inr v" "py_iter v = Inr xs" "list_all is_object xs"
proof (cases "setting c ''extra_fields_spool''")
  case None
  then show ?thesis by (rule absent)
next
  case (Some r)
  show ?thesis
  proof (cases "json_loads (setting_value r)")
    case (Inl e)
    with Some show ?thesis by (auto intro: raised dest: downgrade_undecodable)
  next
    case (Inr v)
    show ?thesis
    proof (cases "py_iter v")
      case (Inl e)
      with Some Inr show ?thesis by (auto intro: raised dest: downgrade_not_iterable)
    next
      case inner: (Inr xs)
      show ?thesis
      proof (cases "list_all is_object xs")
        case True
        with Some Inr inner show ?thesis by (auto intro: items)
      next
        case False
        with downgrade_items [OF Some Inr inner, of now] show ?thesis by (auto intro: raised)
      qed
    qed
  qed
qed

subsection \<open>Idempotence of the merge\<close>

text \<open>
  Claim C1. From every database (no row, a row whose value is any text at all), running
  \<^verbatim>\<open>upgrade\<close> twice in sequence, at any two times, ends like running it once: the same
  outcome, the same table (so also the same timestamps), and in particular the same
  decoded value under \<^verbatim>\<open>extra_fields_spool\<close>.
\<close>

theorem upgrade_idempotent:
  "fst (and_then (upgrade t1) (upgrade t2) c) = fst (upgrade t1 c) \<and>
   setting (snd (and_then (upgrade t1) (upgrade t2) c)) = setting (snd (upgrade t1 c)) \<and>
   stored_fields (snd (and_then (upgrade t1) (upgrade t2) c)) = stored_fields (snd (upgrade t1 c))"
proof (cases "upgrade t1 c")
  case (Pair res c1)
  show ?thesis
  proof (cases res)
    case Returned
    with Pair have first: "upgrade t1 c = (Returned, c1)" by simp
    from upgrade_returned_found [OF first] obtain r xs
      where "setting c1 ''extra_fields_spool'' = Some r"
        and "json_loads (setting_value r) = Inr (JArray xs)"
        and "list_ex is_nfc_id (takeWhile is_object xs)" by blast
    then have "upgrade t2 c1 = (Returned, c1\<lparr>executed := executed c1 @ [Select ''extra_fields_spool'']\<rparr>)"
      by (rule upgrade_found)
    with first show ?thesis by (simp add: and_then_def stored_fields_def)
  next
    case (Raised e)
    with Pair show ?thesis by (simp add: and_then_def)
  qed
qed


text \<open>The theorem at the database holding \<^verbatim>\<open>[material]\<close>.\<close>

theorem upgrade_idempotent_witness:
  "stored_fields (snd (and_then (upgrade 1) (upgrade 2) (connection_with (Encoded (JArray [material]))))) =
     stored_fields (snd (upgrade 1 (connection_with (Encoded (JArray [material]))))) \<and>
   stored_fields (snd (upgrade 1 (connection_with (Encoded (JArray [material]))))) =
     Some (Inr (JArray [nfc_field, material]))"
  using upgrade_idempotent [of 1 2 "connection_with (Encoded (JArray [material]))"]
  by (simp add: upgrade_def execute_select_def execute_update_def json_dumps_def
      connection_with_def material_def stored_fields_def)

subsection \<open>Idempotence of the unmerge\<close>

text \<open>
  Claim C2. From every database, running \<^verbatim>\<open>downgrade\<close> twice in sequence ends with
  the same outcome and the same decoded value under \<^verbatim>\<open>extra_fields_spool\<close> as running it
  once. When the stored list has no element with key \<^verbatim>\<open>nfc_id\<close>, a further
  \<^verbatim>\<open>downgrade\<close> changes nothing in the Field List: the decoded value stays as it is,
  and so does the value of every row of the table. As the last step of the unmerge
  prescribes, on a list of objects it still writes the list back, which sets
  \<^verbatim>\<open>last_updated\<close> to the current time.
\<close>

theorem downgrade_idempotent_on_fields:
  "fst (and_then (downgrade t1) (downgrade t2) c) = fst (downgrade t1 c) \<and>
   stored_fields (snd (and_then (downgrade t1) (downgrade t2) c)) =
     stored_fields (snd (downgrade t1 c)) \<and>
   (stored_fields c = Some (Inr (JArray xs)) \<and> \<not> list_ex is_nfc_id xs \<longrightarrow>
      stored_fields (snd (downgrade t1 c)) = stored_fields c \<and>
      (\<forall>k. map_option setting_value (setting (snd (downgrade t1 c)) k) =
           map_option setting_value (setting c k))) \<and>
   (stored_fields c = Some (Inr (JArray xs)) \<and> \<not> list_ex is_nfc_id xs \<and> list_all is_object xs \<longrightarrow>
      fst (downgrade t1 c) = Returned \<and>
      writes (snd (downgrade t1 c)) =
        writes c @ [Update ''extra_fields_spool'' (json_dumps (JArray xs)) t1] \<and>
      map_option last_updated (setting (snd (downgrade t1 c)) ''extra_fields_spool'') = Some t1)"
proof -
  have twice: "fst (and_then (downgrade t1) (downgrade t2) c) = fst (downgrade t1 c) \<and>
     stored_fields (snd (and_then (downgrade t1) (downgrade t2) c)) =
       stored_fields (snd (downgrade t1 c))"
  proof (cases rule: downgrade_cases [where c = c and now = t1])
    case absent
    then show ?thesis
      by (simp add: and_then_def downgrade_absent stored_fields_def)
  next
    case (raised e)
    then show ?thesis by (simp add: and_then_def)
  next
    case (items r v ys)
    let ?kept = "filter (\<lambda>field. \<not> is_nfc_id field) ys"
    let ?r1 = "r\<lparr>setting_value := Encoded (JArray ?kept), last_updated := t1\<rparr>"
    define c1 where "c1 =
       c\<lparr>setting := (setting c)(''extra_fields_spool'' \<mapsto> ?r1),
         executed := executed c @
           [Select ''extra_fields_spool'',
            Update ''extra_fields_spool'' (Encoded (JArray ?kept)) t1]\<rparr>"
    from items have first: "downgrade t1 c = (Returned, c1)"
      by (simp add: downgrade_items c1_def)
    have row: "setting c1 ''extra_fields_spool'' = Some ?r1"
      by (simp add: c1_def)
    have loads: "json_loads (setting_value ?r1) = Inr (JArray ?kept)" by simp
    have iter: "py_iter (JArray ?kept) = Inr ?kept" by simp
    from items have objects: "list_all is_object ?kept" by (simp add: list_all_object_filter)
    have second: "downgrade t2 c1 =
       (Returned,
        c1\<lparr>setting := (setting c1)(''extra_fields_spool'' \<mapsto>
               ?r1\<lparr>setting_value := Encoded (JArray ?kept), last_updated := t2\<rparr>),
          executed := executed c1 @
            [Select ''extra_fields_spool'',
             Update ''extra_fields_spool'' (Encoded (JArray ?kept)) t2]\<rparr>)"
      using downgrade_items [OF row loads iter, of t2] objects by simp
    have "and_then (downgrade t1) (downgrade t2) c = downgrade t2 c1"
      using first by (rule and_then_Returned)
    then show ?thesis
      using row by (simp add: first second stored_fields_def)
  qed
  have unchanged: "stored_fields (snd (downgrade t1 c)) = stored_fields c \<and>
      (\<forall>k. map_option setting_value (setting (snd (downgrade t1 c)) k) =
           map_option setting_value (setting c k))"
    if "stored_fields c = Some (Inr (JArray xs))" and "\<not> list_ex is_nfc_id xs"
  proof -
    from that obtain r where row: "setting c ''extra_fields_spool'' = Some r"
      and loads: "json_loads (setting_value r) = Inr (JArray xs)"
      by (auto simp add: stored_fields_array)
    have iter: "py_iter (JArray xs) = Inr xs" by simp
    from loads have column: "setting_value r = Encoded (JArray xs)"
      by (cases "setting_value r") simp_all
    have "stored_fields (snd (downgrade t1 c)) = stored_fields c"
      using downgrade_items [OF row loads iter, of t1] row loads that(2)
      by (simp add: stored_fields_def filter_not_nfc_id_none)
    moreover have "map_option setting_value (setting (snd (downgrade t1 c)) k) =
        map_option setting_value (setting c k)" for k
      using downgrade_items [OF row loads iter, of t1] row column that(2)
      by (simp add: filter_not_nfc_id_none)
    ultimately show ?thesis by blast
  qed
  have written: "fst (downgrade t1 c) = Returned \<and>
      writes (snd (downgrade t1 c)) =
        writes c @ [Update ''extra_fields_spool'' (json_dumps (JArray xs)) t1] \<and>
      map_option last_updated (setting (snd (downgrade t1 c)) ''extra_fields_spool'') = Some t1"
    if "stored_fields c = Some (Inr (JArray xs))" and "\<not> list_ex is_nfc_id xs"
      and "list_all is_object xs"
  proof -
    from that obtain r where row: "setting c ''extra_fields_spool'' = Some r"
      and loads: "json_loads (setting_value r) = Inr (JArray xs)"
      by (auto simp add: stored_fields_array)
    have iter: "py_iter (JArray xs) = Inr xs" by simp
    show ?thesis
      using downgrade_items [OF row loads iter, of t1] that(2,3)
      by (simp add: writes_def json_dumps_def filter_not_nfc_id_none)
  qed
  from twice unchanged written show ?thesis by blast
qed


text \<open>
  The theorem at the database holding \<^verbatim>\<open>[nfc_field, material]\<close> and at the one holding
  \<^verbatim>\<open>[material]\<close>.
\<close>

theorem downgrade_idempotent_on_fields_witness:
  "stored_fields (snd (and_then (downgrade 1) (downgrade 2)
       (connection_with (Encoded (JArray [nfc_field, material]))))) =
     Some (Inr (JArray [material])) \<and>
   stored_fields (snd (downgrade 1 (connection_with (Encoded (JArray [nfc_field, material]))))) =
     Some (Inr (JArray [material])) \<and>
   stored_fields (snd (downgrade 3 (connection_with (Encoded (JArray [material]))))) =
     Some (Inr (JArray [material])) \<and>
   writes (snd (downgrade 3 (connection_with (Encoded (JArray [material]))))) =
     [Update ''extra_fields_spool'' (Encoded (JArray [material])) 3] \<and>
   map_option last_updated
     (setting (snd (downgrade 3 (connection_with (Encoded (JArray [material])))))
        ''extra_fields_spool'') = Some 3"
proof -
  let ?c = "connection_with (Encoded (JArray [material]))"
  have stored: "stored_fields ?c = Some (Inr (JArray [material]))"
    by (simp add: stored_fields_def connection_with_def)
  have none: "\<not> list_ex is_nfc_id [material]"
    by (simp add: is_nfc_id_def material_def)
  have objects: "list_all is_object [material]"
    by (simp add: material_def)
  have once: "stored_fields (snd (downgrade 1 (connection_with (Encoded (JArray [nfc_field, material]))))) =
     Some (Inr (JArray [material]))"
    by (simp add: downgrade_def execute_select_def execute_update_def json_dumps_def
        connection_with_def material_def nfc_field_def stored_fields_def)
  have no_writes: "writes ?c = []"
    by (simp add: writes_def connection_with_def)
  show ?thesis
    using downgrade_idempotent_on_fields
            [of 1 2 "connection_with (Encoded (JArray [nfc_field, material]))" "[nfc_field, material]"]
          downgrade_idempotent_on_fields [of 3 2 ?c "[material]"]
          stored none objects once no_writes
    by (simp add: json_dumps_def)
qed


subsection \<open>Unmerge, then merge again\<close>

lemma downgrade_then_upgrade_inserted:
  assumes row: "setting c1 ''extra_fields_spool'' = Some r1"
    and loads: "json_loads (setting_value r1) = Inr (JArray (nfc_field # xs))"
    and objects: "list_all is_object xs"
    and none: "\<not> list_ex is_nfc_id xs"
  shows "fst (and_then (downgrade t1) (upgrade t2) c1) = Returned \<and>
         stored_fields (snd (and_then (downgrade t1) (upgrade t2) c1)) =
           Some (Inr (JArray (nfc_field # xs)))"
proof -
  let ?r2 = "r1\<lparr>setting_value := Encoded (JArray xs), last_updated := t1\<rparr>"
  define c2 where "c2 =
     c1\<lparr>setting := (setting c1)(''extra_fields_spool'' \<mapsto> ?r2),
        executed := executed c1 @
          [Select ''extra_fields_spool'', Update ''extra_fields_spool'' (Encoded (JArray xs)) t1]\<rparr>"
  have iter: "py_iter (JArray (nfc_field # xs)) = Inr (nfc_field # xs)" by simp
  have "downgrade t1 c1 = (Returned, c2)"
    using downgrade_items [OF row loads iter, of t1] objects none
    by (simp add: is_object_nfc_field is_nfc_id_nfc_field filter_not_nfc_id_none c2_def)
  then have both: "and_then (downgrade t1) (upgrade t2) c1 = upgrade t2 c2"
    by (rule and_then_Returned)
  have row2: "setting c2 ''extra_fields_spool'' = Some ?r2" by (simp add: c2_def)
  have loads2: "json_loads (setting_value ?r2) = Inr (JArray xs)" by simp
  have "\<not> list_ex is_nfc_id (takeWhile is_object xs)"
    using objects none by (simp add: takeWhile_objects)
  with upgrade_array [OF row2 loads2, of t2] objects
  show ?thesis by (simp add: both stored_fields_def)
qed

text \<open>
  Claim C3, as amended. When a forward merge has written (it created the row, or it
  inserted the descriptor into a list that had no element with key \<^verbatim>\<open>nfc_id\<close>),
  \<^verbatim>\<open>downgrade\<close> followed by \<^verbatim>\<open>upgrade\<close> on the database it leaves returns normally and
  stores a list equal to the one the forward merge stored.
\<close>

theorem unmerge_then_merge_restores:
  assumes "upgrade t0 c = (Returned, c1)" and "writes c1 \<noteq> writes c"
  shows "fst (and_then (downgrade t1) (upgrade t2) c1) = Returned \<and>
         stored_fields (snd (and_then (downgrade t1) (upgrade t2) c1)) = stored_fields c1"
proof (cases rule: upgrade_cases [where c = c and now = t0])
  case absent
  let ?r1 = "\<lparr>setting_value = Encoded (JArray [nfc_field]), last_updated = t0\<rparr>"
  from absent assms(1) have row: "setting c1 ''extra_fields_spool'' = Some ?r1"
    by (auto simp add: upgrade_absent)
  have loads: "json_loads (setting_value ?r1) = Inr (JArray (nfc_field # []))" by simp
  from downgrade_then_upgrade_inserted [OF row loads, of t1 t2] row
  show ?thesis by (simp add: stored_fields_def)
next
  case (raised e)
  with assms(1) show ?thesis by simp
next
  case (array r xs)
  show ?thesis
  proof (cases "list_ex is_nfc_id (takeWhile is_object xs)")
    case True
    with array assms(1) have "c1 = c\<lparr>executed := executed c @ [Select ''extra_fields_spool'']\<rparr>"
      by (simp add: upgrade_array)
    then have "writes c1 = writes c" by (simp add: writes_def)
    with assms(2) show ?thesis by simp
  next
    case False
    with array assms(1) have objects: "list_all is_object xs"
      by (auto simp add: upgrade_array split: if_splits)
    with False have none: "\<not> list_ex is_nfc_id xs" by (simp add: takeWhile_objects)
    let ?r1 = "r\<lparr>setting_value := Encoded (JArray (nfc_field # xs)), last_updated := t0\<rparr>"
    from array assms(1) False objects have row: "setting c1 ''extra_fields_spool'' = Some ?r1"
      by (auto simp add: upgrade_array)
    have loads: "json_loads (setting_value ?r1) = Inr (JArray (nfc_field # xs))" by simp
    from downgrade_then_upgrade_inserted [OF row loads objects none, of t1 t2] row
    show ?thesis by (simp add: stored_fields_def)
  qed
qed

text \<open>
  The theorem at the forward merge of \<^verbatim>\<open>[material]\<close>, which stores
  \<^verbatim>\<open>[nfc_field, material]\<close>.
\<close>

theorem unmerge_then_merge_restores_witness:
  "stored_fields (snd (and_then (downgrade 2) (upgrade 3)
       (snd (upgrade 1 (connection_with (Encoded (JArray [material]))))))) =
     Some (Inr (JArray [nfc_field, material])) \<and>
   fst (and_then (downgrade 2) (upgrade 3)
       (snd (upgrade 1 (connection_with (Encoded (JArray [material])))))) = Returned"
proof -
  let ?c = "connection_with (Encoded (JArray [material]))"
  let ?c1 = "\<lparr>setting = [''extra_fields_spool'' \<mapsto>
                 \<lparr>setting_value = Encoded (JArray [nfc_field, material]), last_updated = 1\<rparr>],
             executed = [Select ''extra_fields_spool'',
                         Update ''extra_fields_spool'' (Encoded (JArray [nfc_field, material])) 1]\<rparr>"
  have merge: "upgrade 1 ?c = (Returned, ?c1)"
    by (simp add: upgrade_def execute_select_def execute_update_def json_dumps_def
        connection_with_def material_def)
  have wrote: "writes ?c1 \<noteq> writes ?c"
    by (simp add: writes_def connection_with_def)
  have stored: "stored_fields ?c1 = Some (Inr (JArray [nfc_field, material]))"
    by (simp add: stored_fields_def)
  from unmerge_then_merge_restores [OF merge wrote, of 2 3] stored
  show ?thesis unfolding merge by simp
qed

text \<open>
  Claim C3 as stated fails: when the stored list already has the descriptor, but not in
  first place, the forward merge returns without writing, and \<^verbatim>\<open>downgrade\<close> followed by
  \<^verbatim>\<open>upgrade\<close> moves the descriptor to the front.
\<close>

theorem unmerge_then_merge_reorders_counterexample:
  "fst (upgrade 1 (connection_with (Encoded (JArray [material, nfc_field])))) = Returned \<and>
   stored_fields (snd (upgrade 1 (connection_with (Encoded (JArray [material, nfc_field]))))) =
     Some (Inr (JArray [material, nfc_field])) \<and>
   stored_fields (snd (and_then (downgrade 2) (upgrade 3)
       (snd (upgrade 1 (connection_with (Encoded (JArray [material, nfc_field]))))))) =
     Some (Inr (JArray [nfc_field, material])) \<and>
   JArray [nfc_field, material] \<noteq> JArray [material, nfc_field]"
  by (simp add: and_then_def upgrade_def downgrade_def execute_select_def execute_update_def
      json_dumps_def connection_with_def material_def nfc_field_def stored_fields_def)


subsection \<open>Stored values that are not a list of objects\<close>

text \<open>
  Claim C4, as amended. Let the row exist. When its value is not valid JSON, or is
  valid JSON and not an array (it decodes to \<^verbatim>\<open>null\<close>, a boolean, a number, a string or
  an object), \<^verbatim>\<open>upgrade\<close> raises, and the only statement it has executed is the c\<lparr>executed := executed c @ [Select ''extra_fields_spool'']\<rparr>ECT:
  the table is as it was. \<^verbatim>\<open>downgrade\<close> does the same on all these values but the empty
  object and the empty string. When the value is an array with an element that is not
  an object, neither writes: \<^verbatim>\<open>downgrade\<close> raises, and \<^verbatim>\<open>upgrade\<close> raises unless an
  element with key \<^verbatim>\<open>nfc_id\<close> stands before the first element that is not an object (it
  then returns, having found the descriptor).
\<close>

theorem malformed_value_aborts:
  assumes "setting c ''extra_fields_spool'' = Some r"
  shows
    "(json_loads (setting_value r) = Inl e \<longrightarrow>
        upgrade now c = (Raised e, c\<lparr>executed := executed c @ [Select ''extra_fields_spool'']\<rparr>) \<and>
        downgrade now c = (Raised e, c\<lparr>executed := executed c @ [Select ''extra_fields_spool'']\<rparr>)) \<and>
     (json_loads (setting_value r) = Inr v \<and> py_iter v = Inl e \<longrightarrow>
        upgrade now c = (Raised e, c\<lparr>executed := executed c @ [Select ''extra_fields_spool'']\<rparr>) \<and>
        downgrade now c = (Raised e, c\<lparr>executed := executed c @ [Select ''extra_fields_spool'']\<rparr>)) \<and>
     (json_loads (setting_value r) = Inr (JString s) \<or>
      json_loads (setting_value r) = Inr (JObject kvs) \<longrightarrow>
        upgrade now c =
          (Raised AttributeError, c\<lparr>executed := executed c @ [Select ''extra_fields_spool'']\<rparr>)) \<and>
     (json_loads (setting_value r) = Inr (JString (ch # cs)) \<or>
      json_loads (setting_value r) = Inr (JObject (kv # rest)) \<longrightarrow>
        downgrade now c =
          (Raised AttributeError, c\<lparr>executed := executed c @ [Select ''extra_fields_spool'']\<rparr>)) \<and>
     (json_loads (setting_value r) = Inr (JArray xs) \<and> \<not> list_all is_object xs \<longrightarrow>
        upgrade now c =
          (if list_ex is_nfc_id (takeWhile is_object xs) then Returned else Raised AttributeError,
           c\<lparr>executed := executed c @ [Select ''extra_fields_spool'']\<rparr>) \<and>
        downgrade now c =
          (Raised AttributeError, c\<lparr>executed := executed c @ [Select ''extra_fields_spool'']\<rparr>))"
proof (intro conjI impI)
  assume "json_loads (setting_value r) = Inl e"
  with assms show "upgrade now c =
      (Raised e, c\<lparr>executed := executed c @ [Select ''extra_fields_spool'']\<rparr>)"
    by (rule upgrade_undecodable)
next
  assume "json_loads (setting_value r) = Inl e"
  with assms show "downgrade now c =
      (Raised e, c\<lparr>executed := executed c @ [Select ''extra_fields_spool'']\<rparr>)"
    by (rule downgrade_undecodable)
next
  assume "json_loads (setting_value r) = Inr v \<and> py_iter v = Inl e"
  with assms show "upgrade now c =
      (Raised e, c\<lparr>executed := executed c @ [Select ''extra_fields_spool'']\<rparr>)"
    by (simp add: upgrade_not_iterable)
next
  assume "json_loads (setting_value r) = Inr v \<and> py_iter v = Inl e"
  with assms show "downgrade now c =
      (Raised e, c\<lparr>executed := executed c @ [Select ''extra_fields_spool'']\<rparr>)"
    by (simp add: downgrade_not_iterable)
next
  assume "json_loads (setting_value r) = Inr (JString s) \<or>
          json_loads (setting_value r) = Inr (JObject kvs)"
  with assms show "upgrade now c =
      (Raised AttributeError, c\<lparr>executed := executed c @ [Select ''extra_fields_spool'']\<rparr>)"
    by (auto simp add: upgrade_string upgrade_object)
next
  assume "json_loads (setting_value r) = Inr (JString (ch # cs)) \<or>
          json_loads (setting_value r) = Inr (JObject (kv # rest))"
  with assms show "downgrade now c =
      (Raised AttributeError, c\<lparr>executed := executed c @ [Select ''extra_fields_spool'']\<rparr>)"
    by (auto simp add: downgrade_string downgrade_object)
next
  assume "json_loads (setting_value r) = Inr (JArray xs) \<and> \<not> list_all is_object xs"
  with assms show "upgrade now c =
      (if list_ex is_nfc_id (takeWhile is_object xs) then Returned else Raised AttributeError,
       c\<lparr>executed := executed c @ [Select ''extra_fields_spool'']\<rparr>)"
    by (simp add: upgrade_array)
next
  assume "json_loads (setting_value r) = Inr (JArray xs) \<and> \<not> list_all is_object xs"
  with assms show "downgrade now c =
      (Raised AttributeError, c\<lparr>executed := executed c @ [Select ''extra_fields_spool'']\<rparr>)"
    by (simp add: downgrade_array)
qed

text \<open>
  The theorem at seven stored values: a text that is not JSON, the number 5, a
  non-empty object, a non-empty string, the empty object, the empty string, and the
  array \<^verbatim>\<open>[material, 1]\<close>.
\<close>

theorem malformed_value_aborts_witness:
  "upgrade 1 (connection_with (Undecodable ''{not json'')) =
     (Raised JSONDecodeError,
      (connection_with (Undecodable ''{not json''))\<lparr>executed := [Select ''extra_fields_spool'']\<rparr>) \<and>
   downgrade 1 (connection_with (Undecodable ''{not json'')) =
     (Raised JSONDecodeError,
      (connection_with (Undecodable ''{not json''))\<lparr>executed := [Select ''extra_fields_spool'']\<rparr>) \<and>
   upgrade 1 (connection_with (Encoded (JInt 5))) =
     (Raised TypeError,
      (connection_with (Encoded (JInt 5)))\<lparr>executed := [Select ''extra_fields_spool'']\<rparr>) \<and>
   downgrade 1 (connection_with (Encoded (JInt 5))) =
     (Raised TypeError,
      (connection_with (Encoded (JInt 5)))\<lparr>executed := [Select ''extra_fields_spool'']\<rparr>) \<and>
   upgrade 1 (connection_with (Encoded (JObject [(''a'', JInt 1)]))) =
     (Raised AttributeError,
      (connection_with (Encoded (JObject [(''a'', JInt 1)])))\<lparr>executed := [Select ''extra_fields_spool'']\<rparr>) \<and>
   downgrade 1 (connection_with (Encoded (JObject [(''a'', JInt 1)]))) =
     (Raised AttributeError,
      (connection_with (Encoded (JObject [(''a'', JInt 1)])))\<lparr>executed := [Select ''extra_fields_spool'']\<rparr>) \<and>
   upgrade 1 (connection_with (Encoded (JString ''abc''))) =
     (Raised AttributeError,
      (connection_with (Encoded (JString ''abc'')))\<lparr>executed := [Select ''extra_fields_spool'']\<rparr>) \<and>
   downgrade 1 (connection_with (Encoded (JString ''abc''))) =
     (Raised AttributeError,
      (connection_with (Encoded (JString ''abc'')))\<lparr>executed := [Select ''extra_fields_spool'']\<rparr>) \<and>
   upgrade 1 (connection_with (Encoded (JObject []))) =
     (Raised AttributeError,
      (connection_with (Encoded (JObject [])))\<lparr>executed := [Select ''extra_fields_spool'']\<rparr>) \<and>
   upgrade 1 (connection_with (Encoded (JString []))) =
     (Raised AttributeError,
      (connection_with (Encoded (JString [])))\<lparr>executed := [Select ''extra_fields_spool'']\<rparr>) \<and>
   upgrade 1 (connection_with (Encoded (JArray [material, JInt 1]))) =
     (Raised AttributeError,
      (connection_with (Encoded (JArray [material, JInt 1])))\<lparr>executed := [Select ''extra_fields_spool'']\<rparr>) \<and>
   downgrade 1 (connection_with (Encoded (JArray [material, JInt 1]))) =
     (Raised AttributeError,
      (connection_with (Encoded (JArray [material, JInt 1])))\<lparr>executed := [Select ''extra_fields_spool'']\<rparr>)"
proof -
  have row: "setting (connection_with v) ''extra_fields_spool'' =
      Some \<lparr>setting_value = v, last_updated = 0\<rparr>" for v
    by (simp add: connection_with_def)
  have log: "executed (connection_with v) = []" for v
    by (simp add: connection_with_def)
  have mixed: "\<not> list_all is_object [material, JInt 1]"
    "\<not> list_ex is_nfc_id (takeWhile is_object [material, JInt 1])"
    by (simp_all add: material_def is_nfc_id_def)
  show ?thesis
    using
      malformed_value_aborts
        [where c = "connection_with (Undecodable ''{not json'')" and e = JSONDecodeError
           and r = "\<lparr>setting_value = Undecodable ''{not json'', last_updated = 0\<rparr>" and now = 1]
      malformed_value_aborts
        [where c = "connection_with (Encoded (JInt 5))" and e = TypeError and v = "JInt 5"
           and r = "\<lparr>setting_value = Encoded (JInt 5), last_updated = 0\<rparr>" and now = 1]
      malformed_value_aborts
        [where c = "connection_with (Encoded (JObject [(''a'', JInt 1)]))"
           and kvs = "[(''a'', JInt 1)]" and kv = "(''a'', JInt 1)" and rest = "[]"
           and r = "\<lparr>setting_value = Encoded (JObject [(''a'', JInt 1)]), last_updated = 0\<rparr>"
           and now = 1]
      malformed_value_aborts
        [where c = "connection_with (Encoded (JString ''abc''))"
           and s = "''abc''" and ch = "CHR ''a''" and cs = "''bc''"
           and r = "\<lparr>setting_value = Encoded (JString ''abc''), last_updated = 0\<rparr>"
           and now = 1]
      malformed_value_aborts
        [where c = "connection_with (Encoded (JObject []))" and kvs = "[]"
           and r = "\<lparr>setting_value = Encoded (JObject []), last_updated = 0\<rparr>" and now = 1]
      malformed_value_aborts
        [where c = "connection_with (Encoded (JString []))" and s = "[]"
           and r = "\<lparr>setting_value = Encoded (JString []), last_updated = 0\<rparr>" and now = 1]
      malformed_value_aborts
        [where c = "connection_with (Encoded (JArray [material, JInt 1]))"
           and xs = "[material, JInt 1]"
           and r = "\<lparr>setting_value = Encoded (JArray [material, JInt 1]), last_updated = 0\<rparr>"
           and now = 1]
      row
      mixed
    by (simp add: log)
qed

text \<open>
  Claim C4 as stated fails at three stored values. The empty object \<^verbatim>\<open>{}\<close> and the empty
  string are valid JSON and not arrays; the comprehension of \<^verbatim>\<open>downgrade\<close> runs over
  the keys of the one and the characters of the other, of which there are none, and
  \<^verbatim>\<open>downgrade\<close> returns normally after an UPDATE that stores the empty list. The array
  \<^verbatim>\<open>[nfc_field, 1]\<close> has an element that is not an object; \<^verbatim>\<open>any\<close> stops at
  \<^verbatim>\<open>nfc_field\<close>, and \<^verbatim>\<open>upgrade\<close> returns normally, with no error.
\<close>

theorem bad_value_accepted_counterexample:
  "json_loads (Encoded (JObject [])) = Inr (JObject []) \<and>
   fst (downgrade 1 (connection_with (Encoded (JObject [])))) = Returned \<and>
   stored_fields (snd (downgrade 1 (connection_with (Encoded (JObject []))))) =
     Some (Inr (JArray [])) \<and>
   writes (snd (downgrade 1 (connection_with (Encoded (JObject []))))) =
     [Update ''extra_fields_spool'' (Encoded (JArray [])) 1] \<and>
   json_loads (Encoded (JString [])) = Inr (JString []) \<and>
   fst (downgrade 1 (connection_with (Encoded (JString [])))) = Returned \<and>
   stored_fields (snd (downgrade 1 (connection_with (Encoded (JString []))))) =
     Some (Inr (JArray [])) \<and>
   writes (snd (downgrade 1 (connection_with (Encoded (JString []))))) =
     [Update ''extra_fields_spool'' (Encoded (JArray [])) 1] \<and>
   \<not> list_all is_object [nfc_field, JInt 1] \<and>
   fst (upgrade 1 (connection_with (Encoded (JArray [nfc_field, JInt 1])))) = Returned"
  by (simp add: upgrade_def downgrade_def execute_select_def execute_update_def json_dumps_def
      connection_with_def stored_fields_def writes_def nfc_field_def)

subsection \<open>What the merge writes\<close>

text \<open>
  Claim C5. When the stored value is a list of field descriptors (JSON objects) none of
  which has the key \<^verbatim>\<open>nfc_id\<close>, \<^verbatim>\<open>upgrade\<close> returns normally and its one write is an
  UPDATE storing \<^verbatim>\<open>nfc_field\<close> followed by the elements of the list, unchanged and in
  their order. When there is no row, its one write is an INSERT creating the row with
  the list \<^verbatim>\<open>[nfc_field]\<close>.
\<close>

theorem upgrade_prepends_descriptor:
  "(setting c ''extra_fields_spool'' = None \<longrightarrow>
      fst (upgrade now c) = Returned \<and>
      stored_fields (snd (upgrade now c)) = Some (Inr (JArray [nfc_field])) \<and>
      writes (snd (upgrade now c)) =
        writes c @ [Insert ''extra_fields_spool'' (json_dumps (JArray [nfc_field])) now]) \<and>
   (stored_fields c = Some (Inr (JArray xs)) \<and> list_all is_object xs \<and>
    \<not> list_ex is_nfc_id xs \<longrightarrow>
      fst (upgrade now c) = Returned \<and>
      stored_fields (snd (upgrade now c)) = Some (Inr (JArray (nfc_field # xs))) \<and>
      writes (snd (upgrade now c)) =
        writes c @ [Update ''extra_fields_spool'' (json_dumps (JArray (nfc_field # xs))) now])"
proof (intro conjI impI)
  assume absent: "setting c ''extra_fields_spool'' = None"
  then show "fst (upgrade now c) = Returned"
    by (simp add: upgrade_absent)
  from absent show "stored_fields (snd (upgrade now c)) = Some (Inr (JArray [nfc_field]))"
    by (simp add: upgrade_absent stored_fields_def)
  from absent show "writes (snd (upgrade now c)) =
      writes c @ [Insert ''extra_fields_spool'' (json_dumps (JArray [nfc_field])) now]"
    by (simp add: upgrade_absent writes_def json_dumps_def)
next
  assume present: "stored_fields c = Some (Inr (JArray xs)) \<and> list_all is_object xs \<and>
    \<not> list_ex is_nfc_id xs"
  then obtain r where row: "setting c ''extra_fields_spool'' = Some r"
    and loads: "json_loads (setting_value r) = Inr (JArray xs)"
    by (auto simp add: stored_fields_array)
  from present have scan: "\<not> list_ex is_nfc_id (takeWhile is_object xs)" "list_all is_object xs"
    by (simp_all add: takeWhile_objects)
  from upgrade_array [OF row loads, of now] scan
  show "fst (upgrade now c) = Returned"
    and "stored_fields (snd (upgrade now c)) = Some (Inr (JArray (nfc_field # xs)))"
    and "writes (snd (upgrade now c)) =
      writes c @ [Update ''extra_fields_spool'' (json_dumps (JArray (nfc_field # xs))) now]"
    by (simp_all add: stored_fields_def writes_def json_dumps_def)
qed

text \<open>The theorem at the database without the row and at the one holding \<^verbatim>\<open>[material]\<close>.\<close>

theorem upgrade_prepends_descriptor_witness:
  "stored_fields (snd (upgrade 7 fresh_connection)) = Some (Inr (JArray [nfc_field])) \<and>
   writes (snd (upgrade 7 fresh_connection)) =
     [Insert ''extra_fields_spool'' (Encoded (JArray [nfc_field])) 7] \<and>
   stored_fields (snd (upgrade 7 (connection_with (Encoded (JArray [material]))))) =
     Some (Inr (JArray [nfc_field, material])) \<and>
   writes (snd (upgrade 7 (connection_with (Encoded (JArray [material]))))) =
     [Update ''extra_fields_spool'' (Encoded (JArray [nfc_field, material])) 7]"
proof -
  have absent: "setting fresh_connection ''extra_fields_spool'' = None"
    "writes fresh_connection = []"
    by (simp_all add: fresh_connection_def writes_def)
  have present: "stored_fields (connection_with (Encoded (JArray [material]))) =
      Some (Inr (JArray [material]))"
    "list_all is_object [material]" "\<not> list_ex is_nfc_id [material]"
    "writes (connection_with (Encoded (JArray [material]))) = []"
    by (simp_all add: connection_with_def stored_fields_def material_def is_nfc_id_def writes_def)
  show ?thesis
    using upgrade_prepends_descriptor [where c = fresh_connection and now = 7]
      upgrade_prepends_descriptor
        [where c = "connection_with (Encoded (JArray [material]))" and xs = "[material]" and now = 7]
      absent present
    by (simp add: json_dumps_def)
qed

subsection \<open>What the unmerge writes\<close>

text \<open>
  Claim C6. When the stored value is a list of field descriptors (JSON objects),
  \<^verbatim>\<open>downgrade\<close> returns normally and its one write is an UPDATE storing the list without
  the elements whose key is \<^verbatim>\<open>nfc_id\<close>, all of them: the other elements stay, unchanged
  and in their order.
\<close>

theorem downgrade_removes_nfc_id:
  assumes "stored_fields c = Some (Inr (JArray xs))" and "list_all is_object xs"
  shows "fst (downgrade now c) = Returned \<and>
     stored_fields (snd (downgrade now c)) =
       Some (Inr (JArray (filter (\<lambda>field. key_of field \<noteq> JString ''nfc_id'') xs))) \<and>
     writes (snd (downgrade now c)) =
       writes c @
         [Update ''extra_fields_spool''
            (json_dumps (JArray (filter (\<lambda>field. key_of field \<noteq> JString ''nfc_id'') xs))) now]"
proof -
  from assms(1) obtain r where row: "setting c ''extra_fields_spool'' = Some r"
    and loads: "json_loads (setting_value r) = Inr (JArray xs)"
    by (auto simp add: stored_fields_array)
  from downgrade_array [OF row loads, of now] assms(2)
  show ?thesis
    by (simp add: stored_fields_def writes_def json_dumps_def filter_not_nfc_id_key_of)
qed

text \<open>
  The theorem at a list with the descriptor twice, between two other fields.
\<close>

theorem downgrade_removes_nfc_id_witness:
  "stored_fields (snd (downgrade 4 (connection_with
       (Encoded (JArray [material, nfc_field, JObject [(''key'', JString ''color'')], nfc_field]))))) =
     Some (Inr (JArray [material, JObject [(''key'', JString ''color'')]]))"
proof -
  let ?xs = "[material, nfc_field, JObject [(''key'', JString ''color'')], nfc_field]"
  have stored: "stored_fields (connection_with (Encoded (JArray ?xs))) = Some (Inr (JArray ?xs))"
    by (simp add: connection_with_def stored_fields_def)
  have objects: "list_all is_object ?xs"
    by (simp add: material_def nfc_field_def)
  from downgrade_removes_nfc_id [OF stored objects, of 4]
  show ?thesis by (simp add: material_def nfc_field_def)
qed

subsection \<open>The unmerge without a row\<close>

text \<open>
  Claim C7. When there is no row for \<^verbatim>\<open>extra_fields_spool\<close>, \<^verbatim>\<open>downgrade\<close> returns
  normally having executed the SELECT only: the table is unchanged (no row is created)
  and no write is executed.
\<close>

theorem downgrade_absent_unchanged:
  assumes "setting c ''extra_fields_spool'' = None"
  shows "downgrade now c =
       (Returned, c\<lparr>executed := executed c @ [Select ''extra_fields_spool'']\<rparr>) \<and>
     setting (snd (downgrade now c)) = setting c \<and>
     writes (snd (downgrade now c)) = writes c"
  using assms by (simp add: downgrade_def execute_select_def writes_def)

text \<open>The theorem at the database without the row.\<close>

theorem downgrade_absent_unchanged_witness:
  "downgrade 9 fresh_connection =
     (Returned, \<lparr>setting = Map.empty, executed = [Select ''extra_fields_spool'']\<rparr>) \<and>
   setting (snd (downgrade 9 fresh_connection)) = Map.empty \<and>
   writes (snd (downgrade 9 fresh_connection)) = []"
proof -
  have absent: "setting fresh_connection ''extra_fields_spool'' = None"
    by (simp add: fresh_connection_def)
  from downgrade_absent_unchanged [OF absent, of 9]
  show ?thesis by (simp add: fresh_connection_def writes_def)
qed


subsection \<open>Keys stay distinct\<close>

lemma distinct_keys_filter:
  "distinct (map key_of xs) \<Longrightarrow> distinct (map key_of (filter P xs))"
  by (simp add: distinct_map_filter)

lemma distinct_keys_at_most_one:
  "distinct (map key_of xs) \<Longrightarrow> length (filter (\<lambda>field. key_of field = k) xs) \<le> 1"
proof (induction xs)
  case Nil
  show ?case by simp
next
  case (Cons x xs)
  show ?case
  proof (cases "key_of x = k")
    case True
    with Cons.prems have "k \<notin> key_of ` set xs" by auto
    then have "filter (\<lambda>field. key_of field = k) xs = []"
      by (auto simp add: filter_empty_conv)
    with True show ?thesis by simp
  next
    case False
    with Cons show ?thesis by simp
  qed
qed

lemma filter_nfc_id_key_of:
  "list_all is_object xs \<Longrightarrow>
   filter is_nfc_id xs = filter (\<lambda>field. key_of field = JString ''nfc_id'') xs"
  by (induction xs) (simp_all add: is_nfc_id_key_of)

lemma list_ex_filter_nonempty: "list_ex P xs \<Longrightarrow> 1 \<le> length (filter P xs)"
  by (induction xs) auto

lemma not_list_ex_filter_empty: "\<not> list_ex P xs \<Longrightarrow> filter P xs = []"
  by (induction xs) auto

lemma not_list_ex_key_fresh:
  "list_all is_object xs \<Longrightarrow> \<not> list_ex is_nfc_id xs \<Longrightarrow>
   JString ''nfc_id'' \<notin> key_of ` set xs"
  by (induction xs) (auto simp add: is_nfc_id_key_of)

text \<open>
  Claim C8. When the stored value is a list of field descriptors (JSON objects) whose
  keys are pairwise distinct, the list \<^verbatim>\<open>upgrade\<close> leaves and the list \<^verbatim>\<open>downgrade\<close>
  leaves have pairwise distinct keys again; the one \<^verbatim>\<open>upgrade\<close> leaves has exactly one
  element with key \<^verbatim>\<open>nfc_id\<close>.
\<close>

theorem distinct_keys_preserved:
  assumes "stored_fields c = Some (Inr (JArray xs))" and "list_all is_object xs"
    and "distinct (map key_of xs)"
  shows "(\<exists>ys. stored_fields (snd (upgrade now c)) = Some (Inr (JArray ys)) \<and>
            distinct (map key_of ys) \<and> length (filter is_nfc_id ys) = 1) \<and>
         (\<exists>zs. stored_fields (snd (downgrade now c)) = Some (Inr (JArray zs)) \<and>
            distinct (map key_of zs))"
proof
  from assms(1) obtain r where row: "setting c ''extra_fields_spool'' = Some r"
    and loads: "json_loads (setting_value r) = Inr (JArray xs)"
    by (auto simp add: stored_fields_array)
  show "\<exists>ys. stored_fields (snd (upgrade now c)) = Some (Inr (JArray ys)) \<and>
            distinct (map key_of ys) \<and> length (filter is_nfc_id ys) = 1"
  proof (cases "list_ex is_nfc_id xs")
    case True
    with assms(2) have "list_ex is_nfc_id (takeWhile is_object xs)"
      by (simp add: takeWhile_objects)
    with upgrade_array [OF row loads, of now] row loads
    have kept: "stored_fields (snd (upgrade now c)) = Some (Inr (JArray xs))"
      by (simp add: stored_fields_def)
    have "length (filter is_nfc_id xs) \<le> 1"
      using distinct_keys_at_most_one [OF assms(3)] assms(2) by (simp add: filter_nfc_id_key_of)
    with list_ex_filter_nonempty [OF True] have "length (filter is_nfc_id xs) = 1" by simp
    with kept assms(3) show ?thesis by blast
  next
    case False
    with assms(2) have "\<not> list_ex is_nfc_id (takeWhile is_object xs)"
      by (simp add: takeWhile_objects)
    with upgrade_array [OF row loads, of now] assms(2)
    have merged: "stored_fields (snd (upgrade now c)) = Some (Inr (JArray (nfc_field # xs)))"
      by (simp add: stored_fields_def)
    have "distinct (map key_of (nfc_field # xs))"
      using assms(3) not_list_ex_key_fresh [OF assms(2) False] by (simp add: key_of_nfc_field)
    moreover have "length (filter is_nfc_id (nfc_field # xs)) = 1"
      using False by (simp add: is_nfc_id_nfc_field not_list_ex_filter_empty)
    ultimately show ?thesis using merged by blast
  qed
  from downgrade_array [OF row loads, of now] assms(2)
  have "stored_fields (snd (downgrade now c)) =
      Some (Inr (JArray (filter (\<lambda>field. \<not> is_nfc_id field) xs)))"
    by (simp add: stored_fields_def)
  with distinct_keys_filter [OF assms(3)]
  show "\<exists>zs. stored_fields (snd (downgrade now c)) = Some (Inr (JArray zs)) \<and>
            distinct (map key_of zs)"
    by blast
qed

text \<open>
  The theorem at \<^verbatim>\<open>[material]\<close>: the merge leaves \<^verbatim>\<open>[nfc_field, material]\<close>, the unmerge
  \<^verbatim>\<open>[material]\<close>.
\<close>

theorem distinct_keys_preserved_witness:
  "(\<exists>ys. stored_fields (snd (upgrade 1 (connection_with (Encoded (JArray [material]))))) =
           Some (Inr (JArray ys)) \<and>
         distinct (map key_of ys) \<and> length (filter is_nfc_id ys) = 1) \<and>
   (\<exists>zs. stored_fields (snd (downgrade 1 (connection_with (Encoded (JArray [material]))))) =
           Some (Inr (JArray zs)) \<and>
         distinct (map key_of zs)) \<and>
   distinct (map key_of [material])"
proof -
  have stored: "stored_fields (connection_with (Encoded (JArray [material]))) =
      Some (Inr (JArray [material]))"
    by (simp add: connection_with_def stored_fields_def)
  have objects: "list_all is_object [material]" by (simp add: material_def)
  have keys: "distinct (map key_of [material])" by simp
  from distinct_keys_preserved [OF stored objects keys, of 1] keys
  show ?thesis by simp
qed

subsection \<open>The merge when the descriptor is there\<close>

lemma upgrade_present_select_only:
  assumes "setting c ''extra_fields_spool'' = Some r"
    and "json_loads (setting_value r) = Inr (JArray xs)"
    and "list_ex is_nfc_id xs"
  shows "snd (upgrade now c) = c\<lparr>executed := executed c @ [Select ''extra_fields_spool'']\<rparr>"
proof (cases "list_all is_object xs")
  case True
  with assms(3) have "list_ex is_nfc_id (takeWhile is_object xs)"
    by (simp add: takeWhile_objects)
  with upgrade_array [OF assms(1,2), of now] show ?thesis by simp
next
  case False
  with upgrade_array [OF assms(1,2), of now] show ?thesis by simp
qed

text \<open>
  Claim C9. When the stored list has an element with key \<^verbatim>\<open>nfc_id\<close>, \<^verbatim>\<open>upgrade\<close>
  executes the SELECT and nothing else: no write is executed, and the table, so the
  value and \<^verbatim>\<open>last_updated\<close> of the row, is unchanged. On a list of objects it returns
  normally.
\<close>

theorem upgrade_present_no_write:
  assumes "stored_fields c = Some (Inr (JArray xs))" and "list_ex is_nfc_id xs"
  shows "snd (upgrade now c) = c\<lparr>executed := executed c @ [Select ''extra_fields_spool'']\<rparr> \<and>
     writes (snd (upgrade now c)) = writes c \<and>
     setting (snd (upgrade now c)) = setting c \<and>
     (list_all is_object xs \<longrightarrow> fst (upgrade now c) = Returned)"
proof -
  from assms(1) obtain r where row: "setting c ''extra_fields_spool'' = Some r"
    and loads: "json_loads (setting_value r) = Inr (JArray xs)"
    by (auto simp add: stored_fields_array)
  have after: "snd (upgrade now c) = c\<lparr>executed := executed c @ [Select ''extra_fields_spool'']\<rparr>"
    using row loads assms(2) by (rule upgrade_present_select_only)
  have "fst (upgrade now c) = Returned" if "list_all is_object xs"
    using upgrade_array [OF row loads, of now] that assms(2) by (simp add: takeWhile_objects)
  with after show ?thesis by (simp add: writes_def)
qed

text \<open>
  The theorem at the list \<^verbatim>\<open>[material, nfc_field]\<close>, stored at time 0, merged at time 5.
\<close>

theorem upgrade_present_no_write_witness:
  "upgrade 5 (connection_with (Encoded (JArray [material, nfc_field]))) =
     (Returned,
      \<lparr>setting = [''extra_fields_spool'' \<mapsto>
           \<lparr>setting_value = Encoded (JArray [material, nfc_field]), last_updated = 0\<rparr>],
       executed = [Select ''extra_fields_spool'']\<rparr>)"
proof -
  let ?c = "connection_with (Encoded (JArray [material, nfc_field]))"
  have stored: "stored_fields ?c = Some (Inr (JArray [material, nfc_field]))"
    by (simp add: connection_with_def stored_fields_def)
  have found: "list_ex is_nfc_id [material, nfc_field]"
    by (simp add: is_nfc_id_nfc_field)
  have objects: "list_all is_object [material, nfc_field]"
    by (simp add: material_def nfc_field_def)
  from upgrade_present_no_write [OF stored found, of 5] objects
  have "fst (upgrade 5 ?c) = Returned"
    and "snd (upgrade 5 ?c) = ?c\<lparr>executed := executed ?c @ [Select ''extra_fields_spool'']\<rparr>"
    by simp_all
  then have "upgrade 5 ?c =
      (Returned, ?c\<lparr>executed := executed ?c @ [Select ''extra_fields_spool'']\<rparr>)"
    by (simp add: prod_eq_iff)
  then show ?thesis by (simp add: connection_with_def)
qed


subsection \<open>Matching looks at the key only\<close>

text \<open>
  Claim C10. On a stored list of objects, both scans depend on the \<^verbatim>\<open>key\<close> attributes
  only: \<^verbatim>\<open>any\<close> in \<^verbatim>\<open>upgrade\<close> tells whether some element has the key \<^verbatim>\<open>nfc_id\<close>, and
  the comprehension in \<^verbatim>\<open>downgrade\<close> keeps the elements whose key is not \<^verbatim>\<open>nfc_id\<close>. An
  element without a \<^verbatim>\<open>key\<close> attribute does not match, and is in the list that
  \<^verbatim>\<open>upgrade\<close> leaves and in the list that \<^verbatim>\<open>downgrade\<close> leaves. An element with key
  \<^verbatim>\<open>nfc_id\<close>, whatever its other attributes, makes \<^verbatim>\<open>upgrade\<close> return without a write:
  the stored list, that element included, stays as it is.
\<close>

theorem matching_only_on_key:
  assumes "stored_fields c = Some (Inr (JArray xs))" and "list_all is_object xs"
  shows "any_nfc_id xs = Inr (list_ex (\<lambda>field. key_of field = JString ''nfc_id'') xs) \<and>
     without_nfc_id xs = Inr (filter (\<lambda>field. key_of field \<noteq> JString ''nfc_id'') xs) \<and>
     (JObject kvs \<in> set xs \<and> map_of kvs ''key'' = None \<longrightarrow>
        \<not> is_nfc_id (JObject kvs) \<and>
        (\<exists>ys. stored_fields (snd (upgrade now c)) = Some (Inr (JArray ys)) \<and>
           JObject kvs \<in> set ys) \<and>
        (\<exists>zs. stored_fields (snd (downgrade now c)) = Some (Inr (JArray zs)) \<and>
           JObject kvs \<in> set zs)) \<and>
     (JObject kvs \<in> set xs \<and> map_of kvs ''key'' = Some (JString ''nfc_id'') \<longrightarrow>
        fst (upgrade now c) = Returned \<and>
        writes (snd (upgrade now c)) = writes c \<and>
        stored_fields (snd (upgrade now c)) = Some (Inr (JArray xs)))"
proof (intro conjI impI)
  from assms(1) obtain r where row: "setting c ''extra_fields_spool'' = Some r"
    and loads: "json_loads (setting_value r) = Inr (JArray xs)"
    by (auto simp add: stored_fields_array)
  have same: "takeWhile is_object xs = xs"
    using assms(2) by (rule takeWhile_objects)
  show "any_nfc_id xs = Inr (list_ex (\<lambda>field. key_of field = JString ''nfc_id'') xs)"
    using assms(2) by (simp add: any_nfc_id_eq same list_ex_nfc_id_key_of)
  show "without_nfc_id xs = Inr (filter (\<lambda>field. key_of field \<noteq> JString ''nfc_id'') xs)"
    using assms(2) by (simp add: without_nfc_id_eq filter_not_nfc_id_key_of)
  {
    assume lacking: "JObject kvs \<in> set xs \<and> map_of kvs ''key'' = None"
    then show no_match: "\<not> is_nfc_id (JObject kvs)"
      by (simp add: is_nfc_id_JObject)
    have "stored_fields (snd (upgrade now c)) = Some (Inr (JArray xs)) \<or>
          stored_fields (snd (upgrade now c)) = Some (Inr (JArray (nfc_field # xs)))"
      using upgrade_array [OF row loads, of now] row loads assms(2)
      by (simp add: stored_fields_def)
    with lacking show "\<exists>ys. stored_fields (snd (upgrade now c)) = Some (Inr (JArray ys)) \<and>
        JObject kvs \<in> set ys"
      by auto
    have "stored_fields (snd (downgrade now c)) =
        Some (Inr (JArray (filter (\<lambda>field. \<not> is_nfc_id field) xs)))"
      using downgrade_array [OF row loads, of now] assms(2) by (simp add: stored_fields_def)
    moreover have "JObject kvs \<in> set (filter (\<lambda>field. \<not> is_nfc_id field) xs)"
      using lacking no_match by simp
    ultimately show "\<exists>zs. stored_fields (snd (downgrade now c)) = Some (Inr (JArray zs)) \<and>
        JObject kvs \<in> set zs"
      by blast
  }
  {
    assume "JObject kvs \<in> set xs \<and> map_of kvs ''key'' = Some (JString ''nfc_id'')"
    then have "JObject kvs \<in> set xs" and "is_nfc_id (JObject kvs)"
      by (simp_all add: is_nfc_id_JObject)
    then have "list_ex is_nfc_id xs"
      unfolding list_ex_iff by blast
    then have found: "list_ex is_nfc_id (takeWhile is_object xs)"
      by (simp add: same)
    from upgrade_array [OF row loads, of now] found
    show "fst (upgrade now c) = Returned"
      and "writes (snd (upgrade now c)) = writes c"
      and "stored_fields (snd (upgrade now c)) = Some (Inr (JArray xs))"
      using row loads by (simp_all add: writes_def stored_fields_def)
  }
qed

text \<open>
  The theorem at a list of two objects: one without a \<^verbatim>\<open>key\<close> attribute, one with key
  \<^verbatim>\<open>nfc_id\<close> and a name of its own.
\<close>

theorem matching_only_on_key_witness:
  "stored_fields (snd (upgrade 1 (connection_with (Encoded (JArray
       [JObject [(''name'', JString ''Colour'')],
        JObject [(''key'', JString ''nfc_id''), (''name'', JString ''Tag'')]]))))) =
     Some (Inr (JArray
       [JObject [(''name'', JString ''Colour'')],
        JObject [(''key'', JString ''nfc_id''), (''name'', JString ''Tag'')]])) \<and>
   writes (snd (upgrade 1 (connection_with (Encoded (JArray
       [JObject [(''name'', JString ''Colour'')],
        JObject [(''key'', JString ''nfc_id''), (''name'', JString ''Tag'')]]))))) = [] \<and>
   (\<exists>zs. stored_fields (snd (downgrade 1 (connection_with (Encoded (JArray
       [JObject [(''name'', JString ''Colour'')],
        JObject [(''key'', JString ''nfc_id''), (''name'', JString ''Tag'')]]))))) =
       Some (Inr (JArray zs)) \<and>
     JObject [(''name'', JString ''Colour'')] \<in> set zs)"
proof -
  let ?plain = "JObject [(''name'', JString ''Colour'')]"
  let ?tag = "JObject [(''key'', JString ''nfc_id''), (''name'', JString ''Tag'')]"
  let ?c = "connection_with (Encoded (JArray [?plain, ?tag]))"
  have stored: "stored_fields ?c = Some (Inr (JArray [?plain, ?tag]))"
    by (simp add: connection_with_def stored_fields_def)
  have objects: "list_all is_object [?plain, ?tag]" by simp
  have log: "writes ?c = []" by (simp add: writes_def connection_with_def)
  from matching_only_on_key [OF stored objects, of "[(''name'', JString ''Colour'')]" 1]
    matching_only_on_key
      [OF stored objects, of "[(''key'', JString ''nfc_id''), (''name'', JString ''Tag'')]" 1]
    log
  show ?thesis by simp
qed

end
